theory Spec2Isabelle
  imports Main
begin

section \<open>The voice agent script \<^verbatim>\<open>packages/agent-python/agent.py\<close>\<close>

text \<open>
  The script has two parts: the module body, run once when the module is imported
  (\<^verbatim>\<open>load_dotenv()\<close>, then \<^verbatim>\<open>SYSTEM_PROMPT = load_system_prompt()\<close>), and the
  coroutine \<^verbatim>\<open>entrypoint(ctx)\<close>, which the worker framework calls once per job.

  Everything the script does beyond computing values is an effect on its surroundings:
  it reads a file and an environment variable, prints lines, constructs framework
  objects and awaits two framework calls. The model makes each of them an \<open>event\<close> of
  a trace, in program order. An exception is a value \<open>Inl e\<close> of the result; the trace
  returned with it holds the events that happened before the exception left the
  function.

  Python's \<^verbatim>\<open>str\<close> is modelled as \<open>string\<close>, holding the UTF-8 bytes of the text;
  the two non-ASCII characters of the script's messages are written out as their bytes.
\<close>

subsection \<open>Data\<close>

datatype error =
    FileNotFoundError
  | PermissionError
  | FrameworkError string

text \<open>What is stored under a path: text, or something \<^verbatim>\<open>read_text\<close> cannot read.\<close>

datatype file_node = Text string | Unreadable

text \<open>\<^verbatim>\<open>livekit.agents.AutoSubscribe\<close>\<close>

datatype AutoSubscribe = SUBSCRIBE_ALL | SUBSCRIBE_NONE | AUDIO_ONLY | VIDEO_ONLY

text \<open>\<^verbatim>\<open>MCPServerHTTP(url=..., timeout=...)\<close>\<close>

record MCPServerHTTP =
  url :: string
  timeout :: int

text \<open>\<^verbatim>\<open>voice.Agent(instructions=..., mcp_servers=...)\<close>\<close>

record Agent =
  instructions :: string
  mcp_servers :: "MCPServerHTTP list"

text \<open>\<^verbatim>\<open>voice.AgentSession(stt=..., llm=..., tts=...)\<close>\<close>

record AgentSession =
  stt :: string
  llm :: string
  tts :: string

record Room =
  name :: string

text \<open>
  The job context is the framework's. The script uses \<^verbatim>\<open>ctx.room\<close> and awaits
  \<^verbatim>\<open>ctx.connect(auto_subscribe=...)\<close>, which returns or raises: \<open>connect ctx a\<close> is
  \<open>None\<close> when the call returns and \<open>Some e\<close> when it raises \<open>e\<close>.
\<close>

record JobContext =
  room :: Room
  connect :: "AutoSubscribe \<Rightarrow> error option"

text \<open>
  The surroundings of the process at one moment: the directory of the script
  (\<^verbatim>\<open>Path(__file__).parent\<close>), the files, \<^verbatim>\<open>os.environ\<close>, and what the framework's
  \<^verbatim>\<open>session.start(agent=..., room=...)\<close> does when awaited (\<open>None\<close>: it returns,
  \<open>Some e\<close>: it raises \<open>e\<close>).
\<close>

record world =
  script_dir :: string
  files :: "(string \<times> file_node) list"
  environ :: "(string \<times> string) list"
  session_start :: "AgentSession \<Rightarrow> Agent \<Rightarrow> Room \<Rightarrow> error option"

text \<open>The module's global variable.\<close>

record globals =
  SYSTEM_PROMPT :: string

datatype event =
    LoadDotenv
  | ReadText string
  | Getenv string
  | Print string
  | NewMCPServer MCPServerHTTP
  | Connect AutoSubscribe
  | NewAgent Agent
  | NewSession AgentSession
  | Start AgentSession Agent Room

subsection \<open>Library operations the script calls\<close>

text \<open>\<^verbatim>\<open>Path.read_text()\<close>: the whole text of the file, or an exception.\<close>

definition read_text :: "(string \<times> file_node) list \<Rightarrow> string \<Rightarrow> error + string" where
  "read_text fs p =
     (case map_of fs p of
        None \<Rightarrow> Inl FileNotFoundError
      | Some Unreadable \<Rightarrow> Inl PermissionError
      | Some (Text s) \<Rightarrow> Inr s)"

text \<open>\<^verbatim>\<open>os.getenv(key)\<close>: the value, or \<^verbatim>\<open>None\<close> when the variable is not set.\<close>

definition os_getenv :: "(string \<times> string) list \<Rightarrow> string \<Rightarrow> string option" where
  "os_getenv env k = map_of env k"

text \<open>\<^verbatim>\<open>str(n)\<close> for a length: the decimal digits.\<close>

function str_nat :: "nat \<Rightarrow> string" where
  "str_nat n =
     (if n < 10 then [''0123456789'' ! n]
      else str_nat (n div 10) @ [''0123456789'' ! (n mod 10)])"
  by pat_completeness auto
termination
  by (relation "measure (\<lambda>n. n)") auto

text \<open>The characters U+2713 (check mark) and U+26A0 (warning sign), in UTF-8.\<close>

definition check_mark :: string where
  "check_mark = [CHR 0xE2, CHR 0x9C, CHR 0x93]"

definition warning_sign :: string where
  "warning_sign = [CHR 0xE2, CHR 0x9A, CHR 0xA0]"

subsection \<open>The module body\<close>

text \<open>
  \<^verbatim>\<open>
  def load_system_prompt() -> str:
      prompt_path = Path(__file__).parent / "agent-prompt.md"
      return prompt_path.read_text()
  \<close>
\<close>

definition prompt_path :: "world \<Rightarrow> string" where
  "prompt_path w = script_dir w @ ''/agent-prompt.md''"

definition load_system_prompt :: "world \<Rightarrow> error + string" where
  "load_system_prompt w = read_text (files w) (prompt_path w)"

text \<open>
  Importing the module runs \<^verbatim>\<open>load_dotenv()\<close> and then
  \<^verbatim>\<open>SYSTEM_PROMPT = load_system_prompt()\<close>. When the read raises, the import raises,
  and the module (with its \<^verbatim>\<open>entrypoint\<close>) does not come to exist.
\<close>

definition import_module :: "world \<Rightarrow> event list \<times> (error + globals)" where
  "import_module w =
     (let t = [LoadDotenv, ReadText (prompt_path w)]
      in case load_system_prompt w of
           Inl e \<Rightarrow> (t, Inl e)
         | Inr s \<Rightarrow> (t, Inr \<lparr>SYSTEM_PROMPT = s\<rparr>))"

subsection \<open>The handler\<close>

text \<open>
  Lines 44 to 54: the list of tool servers starts empty; when the variable holds a
  non-empty string the confirmation is printed, one server is constructed and
  appended; otherwise (\<^verbatim>\<open>None\<close> and the empty string are both false in Python) the
  warning is printed.
  \<^verbatim>\<open>
  mcp_servers = []
  if mcp_server_url:
      print(f"<check> MCP Server configured: {mcp_server_url}")
      server = MCPServerHTTP(url=mcp_server_url, timeout=10)
      mcp_servers.append(server)
  else:
      print("<warning> No MCP_SERVER_URL found in environment")
  \<close>
  The result is the list and the events of the block.
\<close>

definition no_mcp_warning :: string where
  "no_mcp_warning = warning_sign @ '' No MCP_SERVER_URL found in environment''"

definition prepare_mcp_servers :: "string option \<Rightarrow> MCPServerHTTP list \<times> event list" where
  "prepare_mcp_servers mcp_server_url =
     (let mcp_servers = [] in
      case mcp_server_url of
        None \<Rightarrow> (mcp_servers, [Print no_mcp_warning])
      | Some u \<Rightarrow>
          if u \<noteq> [] then
            (let server = \<lparr>url = u, timeout = 10\<rparr>
             in (mcp_servers @ [server],
                 [Print (check_mark @ '' MCP Server configured: '' @ u), NewMCPServer server]))
          else (mcp_servers, [Print no_mcp_warning]))"

text \<open>
  The values the variable \<^verbatim>\<open>mcp_servers\<close> holds in the course of lines 45 to 54, in
  order: the empty list of line 45 and, where the \<^verbatim>\<open>append\<close> of line 52 runs, the
  list after it. Nothing after line 54 assigns to the variable or changes the list: it
  is handed to \<^verbatim>\<open>voice.Agent\<close> (line 62) and measured by \<^verbatim>\<open>len\<close> (line 77).
\<close>

definition mcp_servers_history :: "string option \<Rightarrow> MCPServerHTTP list list" where
  "mcp_servers_history mcp_server_url =
     (let mcp_servers = [] in
      case mcp_server_url of
        None \<Rightarrow> [mcp_servers]
      | Some u \<Rightarrow>
          if u \<noteq> [] then
            (let server = \<lparr>url = u, timeout = 10\<rparr>
             in [mcp_servers, mcp_servers @ [server]])
          else [mcp_servers])"

text \<open>The session configuration of lines 67 to 71.\<close>

definition agent_session :: AgentSession where
  "agent_session =
     \<lparr>stt = ''assemblyai/universal-streaming:en'',
      llm = ''openai/gpt-4.1-mini'',
      tts = ''cartesia/sonic-2:9626c31c-bec5-4cca-baa8-f8ba9e84c8bc''\<rparr>"

text \<open>
  \<^verbatim>\<open>async def entrypoint(ctx: JobContext)\<close>. The handler reads \<^verbatim>\<open>os.environ\<close> and
  the global \<^verbatim>\<open>SYSTEM_PROMPT\<close>; it does not read any file. Each \<^verbatim>\<open>await\<close> is a call
  whose exception, if any, leaves the handler at once: there is no \<^verbatim>\<open>try\<close>.
\<close>

definition entrypoint :: "globals \<Rightarrow> world \<Rightarrow> JobContext \<Rightarrow> event list \<times> (error + unit)" where
  "entrypoint g w ctx =
     (let mcp_server_url = os_getenv (environ w) ''MCP_SERVER_URL'';
          (mcp_servers, out) = prepare_mcp_servers mcp_server_url;
          t1 = [Getenv ''MCP_SERVER_URL''] @ out @ [Connect AUDIO_ONLY]
      in case connect ctx AUDIO_ONLY of
           Some e \<Rightarrow> (t1, Inl e)
         | None \<Rightarrow>
             (let agent = \<lparr>instructions = SYSTEM_PROMPT g, mcp_servers = mcp_servers\<rparr>;
                  session = agent_session;
                  t2 = t1 @ [NewAgent agent, NewSession session, Start session agent (room ctx)]
              in case session_start w session agent (room ctx) of
                   Some e \<Rightarrow> (t2, Inl e)
                 | None \<Rightarrow>
                     (t2 @ [Print (check_mark @ '' Agent started successfully in room: ''
                                     @ name (room ctx)),
                            Print (check_mark @ '' MCP servers: ''
                                     @ str_nat (length mcp_servers) @ '' configured'')],
                      Inr ())))"

subsection \<open>A process: one import, then jobs\<close>

text \<open>
  The worker (\<^verbatim>\<open>cli.run_app(WorkerOptions(entrypoint_fnc=entrypoint))\<close>) imports the
  module once and then calls the handler once per job. Files and environment may
  change between the import and a job, and between jobs, so every job comes with the
  surroundings at its own invocation. When the import raises there is no handler to
  call.
\<close>

definition run_process ::
  "world \<Rightarrow> (world \<times> JobContext) list
     \<Rightarrow> event list \<times> (error + (event list \<times> (error + unit)) list)" where
  "run_process w0 jobs =
     (case import_module w0 of
        (t, Inl e) \<Rightarrow> (t, Inl e)
      | (t, Inr g) \<Rightarrow> (t, Inr (map (\<lambda>(w, ctx). entrypoint g w ctx) jobs)))"

subsection \<open>Reading a trace\<close>

fun agents_built :: "event list \<Rightarrow> Agent list" where
  "agents_built [] = []"
| "agents_built (NewAgent a # t) = a # agents_built t"
| "agents_built (_ # t) = agents_built t"

fun sessions_built :: "event list \<Rightarrow> AgentSession list" where
  "sessions_built [] = []"
| "sessions_built (NewSession s # t) = s # sessions_built t"
| "sessions_built (_ # t) = sessions_built t"

fun printed :: "event list \<Rightarrow> string list" where
  "printed [] = []"
| "printed (Print s # t) = s # printed t"
| "printed (_ # t) = printed t"

fun connects :: "event list \<Rightarrow> AutoSubscribe list" where
  "connects [] = []"
| "connects (Connect a # t) = a # connects t"
| "connects (_ # t) = connects t"

fun starts :: "event list \<Rightarrow> (AgentSession \<times> Agent \<times> Room) list" where
  "starts [] = []"
| "starts (Start s a r # t) = (s, a, r) # starts t"
| "starts (_ # t) = starts t"

fun reads :: "event list \<Rightarrow> string list" where
  "reads [] = []"
| "reads (ReadText p # t) = p # reads t"
| "reads (_ # t) = reads t"

fun servers_built :: "event list \<Rightarrow> MCPServerHTTP list" where
  "servers_built [] = []"
| "servers_built (NewMCPServer s # t) = s # servers_built t"
| "servers_built (_ # t) = servers_built t"

text \<open>Everything the process did, in order: the import, then each job.\<close>

definition process_trace :: "world \<Rightarrow> (world \<times> JobContext) list \<Rightarrow> event list" where
  "process_trace w0 jobs =
     (case run_process w0 jobs of
        (t, Inl e) \<Rightarrow> t
      | (t, Inr rs) \<Rightarrow> t @ concat (map fst rs))"

text \<open>The agent descriptors constructed by each job of the process.\<close>

definition process_agents :: "world \<Rightarrow> (world \<times> JobContext) list \<Rightarrow> Agent list list" where
  "process_agents w0 jobs =
     (case snd (run_process w0 jobs) of
        Inl e \<Rightarrow> []
      | Inr rs \<Rightarrow> map (\<lambda>r. agents_built (fst r)) rs)"

subsection \<open>Concrete surroundings\<close>

definition connect_ok :: "AutoSubscribe \<Rightarrow> error option" where
  "connect_ok a = None"

definition connect_refused :: "AutoSubscribe \<Rightarrow> error option" where
  "connect_refused a = Some (FrameworkError ''connect'')"

definition start_ok :: "AgentSession \<Rightarrow> Agent \<Rightarrow> Room \<Rightarrow> error option" where
  "start_ok s a r = None"

definition start_refused :: "AgentSession \<Rightarrow> Agent \<Rightarrow> Room \<Rightarrow> error option" where
  "start_refused s a r = Some (FrameworkError ''start'')"

definition world_of :: "(string \<times> file_node) list \<Rightarrow> (string \<times> string) list \<Rightarrow> world" where
  "world_of fs env = \<lparr>script_dir = ''/app'', files = fs, environ = env, session_start = start_ok\<rparr>"

definition ctx_of :: "string \<Rightarrow> JobContext" where
  "ctx_of r = \<lparr>room = \<lparr>name = r\<rparr>, connect = connect_ok\<rparr>"

section \<open>Properties\<close>

subsection \<open>Helper facts\<close>

lemma prepare_mcp_servers_unset:
  "prepare_mcp_servers None = ([], [Print no_mcp_warning])"
  "prepare_mcp_servers (Some []) = ([], [Print no_mcp_warning])"
  by (simp_all add: prepare_mcp_servers_def)

lemma prepare_mcp_servers_set:
  "u \<noteq> [] \<Longrightarrow>
   prepare_mcp_servers (Some u) =
     ([\<lparr>url = u, timeout = 10\<rparr>],
      [Print (check_mark @ '' MCP Server configured: '' @ u),
       NewMCPServer \<lparr>url = u, timeout = 10\<rparr>])"
  by (simp add: prepare_mcp_servers_def Let_def)

lemma sessions_built_append:
  "sessions_built (xs @ ys) = sessions_built xs @ sessions_built ys"
  by (induction xs rule: sessions_built.induct) simp_all

lemma agents_built_append:
  "agents_built (xs @ ys) = agents_built xs @ agents_built ys"
  by (induction xs rule: agents_built.induct) simp_all

lemma printed_append:
  "printed (xs @ ys) = printed xs @ printed ys"
  by (induction xs rule: printed.induct) simp_all

lemma connects_append:
  "connects (xs @ ys) = connects xs @ connects ys"
  by (induction xs rule: connects.induct) simp_all

lemma starts_append:
  "starts (xs @ ys) = starts xs @ starts ys"
  by (induction xs rule: starts.induct) simp_all

lemma servers_built_append:
  "servers_built (xs @ ys) = servers_built xs @ servers_built ys"
  by (induction xs rule: servers_built.induct) simp_all

lemma reads_append:
  "reads (xs @ ys) = reads xs @ reads ys"
  by (induction xs rule: reads.induct) simp_all

lemma prepare_mcp_servers_events:
  "sessions_built (snd (prepare_mcp_servers v)) = []"
  "agents_built (snd (prepare_mcp_servers v)) = []"
  "connects (snd (prepare_mcp_servers v)) = []"
  "starts (snd (prepare_mcp_servers v)) = []"
  by (simp_all add: prepare_mcp_servers_def Let_def split: option.splits)

text \<open>The handler in its three outcomes, and what each kind of event amounts to.\<close>

lemma entrypoint_connect_raises:
  "connect ctx AUDIO_ONLY = Some e \<Longrightarrow>
   entrypoint g w ctx =
     ([Getenv ''MCP_SERVER_URL'']
        @ snd (prepare_mcp_servers (os_getenv (environ w) ''MCP_SERVER_URL''))
        @ [Connect AUDIO_ONLY],
      Inl e)"
  by (simp add: entrypoint_def Let_def case_prod_beta)

lemma entrypoint_start_raises:
  "connect ctx AUDIO_ONLY = None \<Longrightarrow>
   a = \<lparr>instructions = SYSTEM_PROMPT g,
        mcp_servers = fst (prepare_mcp_servers (os_getenv (environ w) ''MCP_SERVER_URL''))\<rparr> \<Longrightarrow>
   session_start w agent_session a (room ctx) = Some e \<Longrightarrow>
   entrypoint g w ctx =
     ([Getenv ''MCP_SERVER_URL'']
        @ snd (prepare_mcp_servers (os_getenv (environ w) ''MCP_SERVER_URL''))
        @ [Connect AUDIO_ONLY, NewAgent a, NewSession agent_session,
           Start agent_session a (room ctx)],
      Inl e)"
  by (simp add: entrypoint_def Let_def case_prod_beta)

lemma entrypoint_returns:
  "connect ctx AUDIO_ONLY = None \<Longrightarrow>
   a = \<lparr>instructions = SYSTEM_PROMPT g,
        mcp_servers = fst (prepare_mcp_servers (os_getenv (environ w) ''MCP_SERVER_URL''))\<rparr> \<Longrightarrow>
   session_start w agent_session a (room ctx) = None \<Longrightarrow>
   entrypoint g w ctx =
     ([Getenv ''MCP_SERVER_URL'']
        @ snd (prepare_mcp_servers (os_getenv (environ w) ''MCP_SERVER_URL''))
        @ [Connect AUDIO_ONLY, NewAgent a, NewSession agent_session,
           Start agent_session a (room ctx),
           Print (check_mark @ '' Agent started successfully in room: '' @ name (room ctx)),
           Print (check_mark @ '' MCP servers: ''
                    @ str_nat (length (mcp_servers a)) @ '' configured'')],
      Inr ())"
  by (simp add: entrypoint_def Let_def case_prod_beta)

lemma sessions_built_entrypoint:
  "sessions_built (fst (entrypoint g w ctx)) =
     (if connect ctx AUDIO_ONLY = None then [agent_session] else [])"
  by (simp add: entrypoint_def Let_def case_prod_beta sessions_built_append
      prepare_mcp_servers_events split: option.splits)

lemma agents_built_entrypoint:
  "agents_built (fst (entrypoint g w ctx)) =
     (if connect ctx AUDIO_ONLY = None
      then [\<lparr>instructions = SYSTEM_PROMPT g,
             mcp_servers = fst (prepare_mcp_servers (os_getenv (environ w) ''MCP_SERVER_URL''))\<rparr>]
      else [])"
  by (simp add: entrypoint_def Let_def case_prod_beta agents_built_append
      prepare_mcp_servers_events split: option.splits)

lemma connects_entrypoint:
  "connects (fst (entrypoint g w ctx)) = [AUDIO_ONLY]"
  by (simp add: entrypoint_def Let_def case_prod_beta connects_append
      prepare_mcp_servers_events split: option.splits)

lemma starts_entrypoint:
  "starts (fst (entrypoint g w ctx)) =
     (let a = \<lparr>instructions = SYSTEM_PROMPT g,
             mcp_servers = fst (prepare_mcp_servers (os_getenv (environ w) ''MCP_SERVER_URL''))\<rparr>
      in if connect ctx AUDIO_ONLY = None then [(agent_session, a, room ctx)] else [])"
  by (simp add: entrypoint_def Let_def case_prod_beta starts_append
      prepare_mcp_servers_events split: option.splits)

lemma printed_prepare_mcp_servers:
  "printed (snd (prepare_mcp_servers v)) =
     (case v of
        None \<Rightarrow> [no_mcp_warning]
      | Some u \<Rightarrow> if u \<noteq> [] then [check_mark @ '' MCP Server configured: '' @ u]
                  else [no_mcp_warning])"
  by (simp add: prepare_mcp_servers_def Let_def split: option.splits)

lemma servers_built_prepare_mcp_servers:
  "servers_built (snd (prepare_mcp_servers v)) = fst (prepare_mcp_servers v)"
  by (simp add: prepare_mcp_servers_def Let_def split: option.splits)

lemma servers_built_entrypoint:
  "servers_built (fst (entrypoint g w ctx)) =
     fst (prepare_mcp_servers (os_getenv (environ w) ''MCP_SERVER_URL''))"
  by (simp add: entrypoint_def Let_def case_prod_beta servers_built_append
      servers_built_prepare_mcp_servers split: option.splits)

lemma printed_entrypoint:
  "printed (fst (entrypoint g w ctx)) =
     (let v = os_getenv (environ w) ''MCP_SERVER_URL'';
          a = \<lparr>instructions = SYSTEM_PROMPT g, mcp_servers = fst (prepare_mcp_servers v)\<rparr>
      in printed (snd (prepare_mcp_servers v)) @
         (if connect ctx AUDIO_ONLY = None \<and> session_start w agent_session a (room ctx) = None
          then [check_mark @ '' Agent started successfully in room: '' @ name (room ctx),
                check_mark @ '' MCP servers: ''
                  @ str_nat (length (fst (prepare_mcp_servers v))) @ '' configured'']
          else []))"
  by (simp add: entrypoint_def Let_def case_prod_beta printed_append split: option.splits)

lemma import_module_raises:
  "load_system_prompt w0 = Inl e \<Longrightarrow>
   import_module w0 = ([LoadDotenv, ReadText (prompt_path w0)], Inl e)"
  by (simp add: import_module_def)

lemma import_module_returns:
  "load_system_prompt w0 = Inr p \<Longrightarrow>
   import_module w0 = ([LoadDotenv, ReadText (prompt_path w0)], Inr \<lparr>SYSTEM_PROMPT = p\<rparr>)"
  by (simp add: import_module_def)

lemma reads_prepare_mcp_servers:
  "reads (snd (prepare_mcp_servers v)) = []"
  by (simp add: prepare_mcp_servers_def Let_def split: option.splits)

lemma reads_entrypoint:
  "reads (fst (entrypoint g w ctx)) = []"
  by (simp add: entrypoint_def Let_def case_prod_beta reads_append
      reads_prepare_mcp_servers split: option.splits)

lemma reads_jobs:
  "reads (concat (map (\<lambda>j. fst (entrypoint g (fst j) (snd j))) jobs)) = []"
  by (induction jobs) (simp_all add: reads_append reads_entrypoint)

lemma connects_jobs:
  "connects (concat (map (\<lambda>j. fst (entrypoint g (fst j) (snd j))) jobs)) =
     replicate (length jobs) AUDIO_ONLY"
  by (induction jobs) (simp_all add: connects_append connects_entrypoint)

lemma entrypoint_ignores_files:
  "entrypoint g (w\<lparr>files := fs, script_dir := d\<rparr>) ctx = entrypoint g w ctx"
  by (simp add: entrypoint_def Let_def case_prod_beta split: option.splits)

lemma load_system_prompt_text:
  "map_of (files w0) (prompt_path w0) = Some (Text p) \<Longrightarrow> load_system_prompt w0 = Inr p"
  by (simp add: load_system_prompt_def read_text_def)

lemma load_system_prompt_missing:
  "map_of (files w0) (prompt_path w0) = None \<Longrightarrow> load_system_prompt w0 = Inl FileNotFoundError"
  by (simp add: load_system_prompt_def read_text_def)

lemma load_system_prompt_unreadable:
  "map_of (files w0) (prompt_path w0) = Some Unreadable \<Longrightarrow>
   load_system_prompt w0 = Inl PermissionError"
  by (simp add: load_system_prompt_def read_text_def)

lemma fst_prepare_mcp_servers_length:
  "length (fst (prepare_mcp_servers v)) \<le> 1"
  by (simp add: prepare_mcp_servers_def Let_def split: option.splits)

lemma mcp_servers_history_lengths:
  "list_all (\<lambda>l. length l \<le> 1) (mcp_servers_history v)"
  by (simp add: mcp_servers_history_def Let_def split: option.splits)

lemma mcp_servers_history_last:
  "last (mcp_servers_history v) = fst (prepare_mcp_servers v)"
  by (simp add: mcp_servers_history_def prepare_mcp_servers_def Let_def split: option.splits)

lemma run_process_import_raises:
  "load_system_prompt w0 = Inl e \<Longrightarrow>
   run_process w0 jobs = ([LoadDotenv, ReadText (prompt_path w0)], Inl e)"
  by (simp add: run_process_def import_module_raises)

lemma run_process_import_returns:
  "load_system_prompt w0 = Inr p \<Longrightarrow>
   run_process w0 jobs =
     ([LoadDotenv, ReadText (prompt_path w0)],
      Inr (map (\<lambda>(w, ctx). entrypoint \<lparr>SYSTEM_PROMPT = p\<rparr> w ctx) jobs))"
  by (simp add: run_process_def import_module_returns)

lemma process_trace_one_job:
  "map_of (files w0) (prompt_path w0) = Some (Text p) \<Longrightarrow>
   process_trace w0 [(w, ctx)] =
     [LoadDotenv, ReadText (prompt_path w0)] @ fst (entrypoint \<lparr>SYSTEM_PROMPT = p\<rparr> w ctx)"
  by (simp add: process_trace_def run_process_import_returns load_system_prompt_text)

subsection \<open>When the prompt is read\<close>

text \<open>
  Claim C1, as the code has it: the prompt file is read in full, as UTF-8 text (a
  \<open>string\<close> here holds the UTF-8 bytes of a text), exactly once in a process, when
  the module is imported, and not at handler invocation time. The
  whole text that the file holds at the import is the \<open>instructions\<close> of the agent
  descriptor of every job of the process, whatever the file holds when the job is
  invoked: the handler performs no file read at all, and its result does not depend on
  the files. (Each job whose connect call returns constructs exactly one agent; a job
  whose connect call raises constructs none.)
\<close>

theorem C1_prompt_read_once:
  "map_of (files w0) (prompt_path w0) = Some (Text p) \<Longrightarrow>
   reads (process_trace w0 jobs) = [prompt_path w0] \<and>
   reads (fst (entrypoint g w ctx)) = [] \<and>
   entrypoint g (w\<lparr>files := fs, script_dir := d\<rparr>) ctx = entrypoint g w ctx \<and>
   map (map instructions) (process_agents w0 jobs) =
     map (\<lambda>(wj, cj). if connect cj AUDIO_ONLY = None then [p] else []) jobs"
proof -
  assume f: "map_of (files w0) (prompt_path w0) = Some (Text p)"
  have imp: "import_module w0 =
      ([LoadDotenv, ReadText (prompt_path w0)], Inr \<lparr>SYSTEM_PROMPT = p\<rparr>)"
    using f by (simp add: import_module_returns load_system_prompt_text)
  have r: "reads (process_trace w0 jobs) = [prompt_path w0]"
    using reads_jobs [of "\<lparr>SYSTEM_PROMPT = p\<rparr>" jobs]
    by (simp add: process_trace_def run_process_def imp reads_append case_prod_beta comp_def)
  have a: "map (map instructions) (process_agents w0 jobs) =
     map (\<lambda>(wj, cj). if connect cj AUDIO_ONLY = None then [p] else []) jobs"
    by (simp add: process_agents_def run_process_def imp agents_built_entrypoint case_prod_beta)
  show ?thesis
    using r a by (simp add: reads_entrypoint entrypoint_ignores_files)
qed

text \<open>
  An import when the file holds ``You are helpful.'', then a job invoked when the file
  holds ``You are terse.'', and a job invoked when the file is gone.
\<close>

theorem C1_prompt_read_once_witness:
  "map_of (files (world_of [(''/app/agent-prompt.md'', Text ''You are helpful.'')] []))
     (prompt_path (world_of [(''/app/agent-prompt.md'', Text ''You are helpful.'')] []))
     = Some (Text ''You are helpful.'') \<and>
   reads (process_trace (world_of [(''/app/agent-prompt.md'', Text ''You are helpful.'')] [])
        [(world_of [(''/app/agent-prompt.md'', Text ''You are terse.'')] [], ctx_of ''room''),
         (world_of [] [], ctx_of ''room'')])
     = [''/app/agent-prompt.md''] \<and>
   map (map instructions)
     (process_agents (world_of [(''/app/agent-prompt.md'', Text ''You are helpful.'')] [])
        [(world_of [(''/app/agent-prompt.md'', Text ''You are terse.'')] [], ctx_of ''room''),
         (world_of [] [], ctx_of ''room'')])
     = [[''You are helpful.''], [''You are helpful.'']]"
proof -
  have h: "map_of (files (world_of [(''/app/agent-prompt.md'', Text ''You are helpful.'')] []))
     (prompt_path (world_of [(''/app/agent-prompt.md'', Text ''You are helpful.'')] []))
     = Some (Text ''You are helpful.'')"
    by (simp add: prompt_path_def world_of_def)
  show ?thesis
    using h C1_prompt_read_once [OF h,
        of "[(world_of [(''/app/agent-prompt.md'', Text ''You are terse.'')] [], ctx_of ''room''),
             (world_of [] [], ctx_of ''room'')]"]
    by (simp add: ctx_of_def connect_ok_def prompt_path_def world_of_def)
qed

text \<open>
  Claim C1 as stated says that the instructions of a job are the content of the file at
  that job's invocation. Here the file holds ``You are terse.'' when the job is invoked,
  and the agent is constructed with ``You are helpful.'', read at import.
\<close>

theorem C1_counterexample:
  "load_system_prompt (world_of [(''/app/agent-prompt.md'', Text ''You are terse.'')] [])
     = Inr ''You are terse.'' \<and>
   map (map instructions)
     (process_agents (world_of [(''/app/agent-prompt.md'', Text ''You are helpful.'')] [])
        [(world_of [(''/app/agent-prompt.md'', Text ''You are terse.'')] [], ctx_of ''room'')])
     = [[''You are helpful.'']]"
  by (simp add: process_agents_def run_process_def import_module_def load_system_prompt_def
      read_text_def prompt_path_def world_of_def agents_built_entrypoint ctx_of_def connect_ok_def)

subsection \<open>A prompt file that is missing or unreadable\<close>

text \<open>
  Claim C2 as stated covers a prompt file that does not exist, or cannot be read, when
  the handler runs. Here the import finds the file; the first job is invoked when the
  file is gone and the second when it cannot be read. No read failure is raised: each
  handler makes its connect call, constructs its agent and session, starts the session
  and returns.
\<close>

theorem C2_counterexample:
  "load_system_prompt (world_of [] []) = Inl FileNotFoundError \<and>
   load_system_prompt (world_of [(''/app/agent-prompt.md'', Unreadable)] []) = Inl PermissionError \<and>
   run_process (world_of [(''/app/agent-prompt.md'', Text ''You are helpful.'')] [])
       [(world_of [] [], ctx_of ''room''),
        (world_of [(''/app/agent-prompt.md'', Unreadable)] [], ctx_of ''room'')] =
     ([LoadDotenv, ReadText ''/app/agent-prompt.md''],
      Inr [([Getenv ''MCP_SERVER_URL'',
             Print (warning_sign @ '' No MCP_SERVER_URL found in environment''),
             Connect AUDIO_ONLY,
             NewAgent \<lparr>instructions = ''You are helpful.'', mcp_servers = []\<rparr>,
             NewSession agent_session,
             Start agent_session \<lparr>instructions = ''You are helpful.'', mcp_servers = []\<rparr>
               \<lparr>name = ''room''\<rparr>,
             Print (check_mark @ '' Agent started successfully in room: room''),
             Print (check_mark @ '' MCP servers: 0 configured'')],
            Inr ()),
           ([Getenv ''MCP_SERVER_URL'',
             Print (warning_sign @ '' No MCP_SERVER_URL found in environment''),
             Connect AUDIO_ONLY,
             NewAgent \<lparr>instructions = ''You are helpful.'', mcp_servers = []\<rparr>,
             NewSession agent_session,
             Start agent_session \<lparr>instructions = ''You are helpful.'', mcp_servers = []\<rparr>
               \<lparr>name = ''room''\<rparr>,
             Print (check_mark @ '' Agent started successfully in room: room''),
             Print (check_mark @ '' MCP servers: 0 configured'')],
            Inr ())])"
  by (simp add: run_process_def import_module_def load_system_prompt_def read_text_def
      prompt_path_def world_of_def ctx_of_def connect_ok_def start_ok_def entrypoint_def
      os_getenv_def prepare_mcp_servers_def no_mcp_warning_def Let_def)

text \<open>
  Claim C2, as the code has it: when the prompt file does not exist or cannot be read
  at the import of the module, the failure of the read (\<^verbatim>\<open>FileNotFoundError\<close> for a
  missing file, the read error otherwise) is raised by the import, before any handler
  invocation: the process ends with that error, and nothing it did is a connect call,
  an agent or session construction, or a session start. The handler itself reads no
  file, makes its connect call in every invocation, and does the same whatever the
  files are when it runs.
\<close>

theorem C2_no_prompt_at_import:
  "map_of (files w0) (prompt_path w0) = None \<or>
   map_of (files w0) (prompt_path w0) = Some Unreadable \<Longrightarrow>
   snd (run_process w0 jobs) =
     Inl (if map_of (files w0) (prompt_path w0) = None then FileNotFoundError
          else PermissionError) \<and>
   process_trace w0 jobs = [LoadDotenv, ReadText (prompt_path w0)] \<and>
   connects (process_trace w0 jobs) = [] \<and>
   agents_built (process_trace w0 jobs) = [] \<and>
   sessions_built (process_trace w0 jobs) = [] \<and>
   starts (process_trace w0 jobs) = [] \<and>
   reads (fst (entrypoint g w ctx)) = [] \<and>
   connects (fst (entrypoint g w ctx)) = [AUDIO_ONLY] \<and>
   entrypoint g (w\<lparr>files := fs, script_dir := d\<rparr>) ctx = entrypoint g w ctx"
proof -
  assume h: "map_of (files w0) (prompt_path w0) = None \<or>
    map_of (files w0) (prompt_path w0) = Some Unreadable"
  define e where "e = (if map_of (files w0) (prompt_path w0) = None then FileNotFoundError
          else PermissionError)"
  have l: "load_system_prompt w0 = Inl e"
    using h by (auto simp add: e_def load_system_prompt_missing load_system_prompt_unreadable)
  have imp: "import_module w0 = ([LoadDotenv, ReadText (prompt_path w0)], Inl e)"
    using l by (rule import_module_raises)
  have p: "snd (run_process w0 jobs) = Inl e \<and>
      process_trace w0 jobs = [LoadDotenv, ReadText (prompt_path w0)]"
    by (simp add: process_trace_def run_process_def imp)
  show ?thesis
    using p by (simp add: e_def reads_entrypoint connects_entrypoint entrypoint_ignores_files)
qed

text \<open>A process started without the prompt file, and one started with an unreadable one.\<close>

theorem C2_no_prompt_at_import_witness:
  "(map_of (files (world_of [] [])) (prompt_path (world_of [] [])) = None \<or>
    map_of (files (world_of [] [])) (prompt_path (world_of [] [])) = Some Unreadable) \<and>
   snd (run_process (world_of [] []) [(world_of [] [], ctx_of ''room'')])
     = Inl FileNotFoundError \<and>
   connects (process_trace (world_of [] []) [(world_of [] [], ctx_of ''room'')]) = [] \<and>
   (map_of (files (world_of [(''/app/agent-prompt.md'', Unreadable)] []))
      (prompt_path (world_of [(''/app/agent-prompt.md'', Unreadable)] [])) = None \<or>
    map_of (files (world_of [(''/app/agent-prompt.md'', Unreadable)] []))
      (prompt_path (world_of [(''/app/agent-prompt.md'', Unreadable)] [])) = Some Unreadable) \<and>
   snd (run_process (world_of [(''/app/agent-prompt.md'', Unreadable)] [])
          [(world_of [] [], ctx_of ''room'')])
     = Inl PermissionError \<and>
   connects (process_trace (world_of [(''/app/agent-prompt.md'', Unreadable)] [])
          [(world_of [] [], ctx_of ''room'')]) = []"
proof -
  have h1: "map_of (files (world_of [] [])) (prompt_path (world_of [] [])) = None \<or>
    map_of (files (world_of [] [])) (prompt_path (world_of [] [])) = Some Unreadable"
    by (simp add: world_of_def)
  have h2: "map_of (files (world_of [(''/app/agent-prompt.md'', Unreadable)] []))
      (prompt_path (world_of [(''/app/agent-prompt.md'', Unreadable)] [])) = None \<or>
    map_of (files (world_of [(''/app/agent-prompt.md'', Unreadable)] []))
      (prompt_path (world_of [(''/app/agent-prompt.md'', Unreadable)] [])) = Some Unreadable"
    by (simp add: world_of_def prompt_path_def)
  show ?thesis
    using h1 h2
      C2_no_prompt_at_import [OF h1, of "[(world_of [] [], ctx_of ''room'')]"]
      C2_no_prompt_at_import [OF h2, of "[(world_of [] [], ctx_of ''room'')]"]
    by (simp add: world_of_def prompt_path_def)
qed

subsection \<open>The tool servers\<close>

text \<open>
  Claim C3: in every handler invocation in which \<^verbatim>\<open>MCP_SERVER_URL\<close> is set to a
  non-empty string \<open>u\<close>, the list of tool servers passed to the agent constructor has
  exactly one element, whose \<open>url\<close> is \<open>u\<close> and whose \<open>timeout\<close> is 10; exactly that one
  server is constructed; and the confirmation message naming \<open>u\<close> is the first line
  printed. (The agent is constructed once the connect call has returned; the lines
  printed after it are the two of the end of the handler, when the session start has
  returned.)
\<close>

theorem C3_mcp_url_set:
  "os_getenv (environ w) ''MCP_SERVER_URL'' = Some u \<Longrightarrow> u \<noteq> [] \<Longrightarrow>
   map mcp_servers (agents_built (fst (entrypoint g w ctx))) =
     (if connect ctx AUDIO_ONLY = None then [[\<lparr>url = u, timeout = 10\<rparr>]] else []) \<and>
   servers_built (fst (entrypoint g w ctx)) = [\<lparr>url = u, timeout = 10\<rparr>] \<and>
   printed (fst (entrypoint g w ctx)) =
     ([CHR 0xE2, CHR 0x9C, CHR 0x93] @ '' MCP Server configured: '' @ u) #
     (if connect ctx AUDIO_ONLY = None \<and>
         session_start w agent_session
           \<lparr>instructions = SYSTEM_PROMPT g, mcp_servers = [\<lparr>url = u, timeout = 10\<rparr>]\<rparr>
           (room ctx) = None
      then [[CHR 0xE2, CHR 0x9C, CHR 0x93] @ '' Agent started successfully in room: ''
              @ name (room ctx),
            [CHR 0xE2, CHR 0x9C, CHR 0x93] @ '' MCP servers: 1 configured'']
      else [])"
  by (simp add: agents_built_entrypoint servers_built_entrypoint printed_entrypoint
      printed_prepare_mcp_servers prepare_mcp_servers_set check_mark_def Let_def)

text \<open>The handler where the variable holds \<^verbatim>\<open>https://example.com/mcp\<close>.\<close>

theorem C3_mcp_url_set_witness:
  "map mcp_servers
     (agents_built (fst (entrypoint \<lparr>SYSTEM_PROMPT = ''You are helpful.''\<rparr>
        (world_of [] [(''MCP_SERVER_URL'', ''https://example.com/mcp'')]) (ctx_of ''room'')))) =
     [[\<lparr>url = ''https://example.com/mcp'', timeout = 10\<rparr>]] \<and>
   servers_built (fst (entrypoint \<lparr>SYSTEM_PROMPT = ''You are helpful.''\<rparr>
        (world_of [] [(''MCP_SERVER_URL'', ''https://example.com/mcp'')]) (ctx_of ''room''))) =
     [\<lparr>url = ''https://example.com/mcp'', timeout = 10\<rparr>] \<and>
   printed (fst (entrypoint \<lparr>SYSTEM_PROMPT = ''You are helpful.''\<rparr>
        (world_of [] [(''MCP_SERVER_URL'', ''https://example.com/mcp'')]) (ctx_of ''room''))) =
     [[CHR 0xE2, CHR 0x9C, CHR 0x93] @ '' MCP Server configured: https://example.com/mcp'',
      [CHR 0xE2, CHR 0x9C, CHR 0x93] @ '' Agent started successfully in room: room'',
      [CHR 0xE2, CHR 0x9C, CHR 0x93] @ '' MCP servers: 1 configured'']"
proof -
  have h: "os_getenv (environ (world_of [] [(''MCP_SERVER_URL'', ''https://example.com/mcp'')]))
             ''MCP_SERVER_URL'' = Some ''https://example.com/mcp''"
    by (simp add: world_of_def os_getenv_def)
  show ?thesis
    using C3_mcp_url_set [OF h, of "\<lparr>SYSTEM_PROMPT = ''You are helpful.''\<rparr>" "ctx_of ''room''"]
    by (simp add: world_of_def ctx_of_def connect_ok_def start_ok_def)
qed

text \<open>
  Claim C4: in every handler invocation in which \<^verbatim>\<open>MCP_SERVER_URL\<close> is unset or set to
  the empty string, the list of tool servers passed to the agent constructor is empty,
  no server is constructed, and the warning line is the first line printed.
\<close>

theorem C4_mcp_url_unset:
  "os_getenv (environ w) ''MCP_SERVER_URL'' = None \<or>
   os_getenv (environ w) ''MCP_SERVER_URL'' = Some [] \<Longrightarrow>
   map mcp_servers (agents_built (fst (entrypoint g w ctx))) =
     (if connect ctx AUDIO_ONLY = None then [[]] else []) \<and>
   servers_built (fst (entrypoint g w ctx)) = [] \<and>
   printed (fst (entrypoint g w ctx)) =
     ([CHR 0xE2, CHR 0x9A, CHR 0xA0] @ '' No MCP_SERVER_URL found in environment'') #
     (if connect ctx AUDIO_ONLY = None \<and>
         session_start w agent_session
           \<lparr>instructions = SYSTEM_PROMPT g, mcp_servers = []\<rparr> (room ctx) = None
      then [[CHR 0xE2, CHR 0x9C, CHR 0x93] @ '' Agent started successfully in room: ''
              @ name (room ctx),
            [CHR 0xE2, CHR 0x9C, CHR 0x93] @ '' MCP servers: 0 configured'']
      else [])"
proof (erule disjE)
  assume h: "os_getenv (environ w) ''MCP_SERVER_URL'' = None"
  show ?thesis
    by (simp add: h agents_built_entrypoint servers_built_entrypoint printed_entrypoint
        printed_prepare_mcp_servers prepare_mcp_servers_unset check_mark_def
        no_mcp_warning_def warning_sign_def Let_def)
next
  assume h: "os_getenv (environ w) ''MCP_SERVER_URL'' = Some []"
  show ?thesis
    by (simp add: h agents_built_entrypoint servers_built_entrypoint printed_entrypoint
        printed_prepare_mcp_servers prepare_mcp_servers_unset check_mark_def
        no_mcp_warning_def warning_sign_def Let_def)
qed

text \<open>The handler where the variable is unset, and where it is set to the empty string.\<close>

theorem C4_mcp_url_unset_witness:
  "map mcp_servers
     (agents_built (fst (entrypoint \<lparr>SYSTEM_PROMPT = ''You are helpful.''\<rparr>
        (world_of [] []) (ctx_of ''room'')))) = [[]] \<and>
   printed (fst (entrypoint \<lparr>SYSTEM_PROMPT = ''You are helpful.''\<rparr>
        (world_of [] []) (ctx_of ''room''))) =
     [[CHR 0xE2, CHR 0x9A, CHR 0xA0] @ '' No MCP_SERVER_URL found in environment'',
      [CHR 0xE2, CHR 0x9C, CHR 0x93] @ '' Agent started successfully in room: room'',
      [CHR 0xE2, CHR 0x9C, CHR 0x93] @ '' MCP servers: 0 configured''] \<and>
   map mcp_servers
     (agents_built (fst (entrypoint \<lparr>SYSTEM_PROMPT = ''You are helpful.''\<rparr>
        (world_of [] [(''MCP_SERVER_URL'', [])]) (ctx_of ''room'')))) = [[]] \<and>
   printed (fst (entrypoint \<lparr>SYSTEM_PROMPT = ''You are helpful.''\<rparr>
        (world_of [] [(''MCP_SERVER_URL'', [])]) (ctx_of ''room''))) =
     [[CHR 0xE2, CHR 0x9A, CHR 0xA0] @ '' No MCP_SERVER_URL found in environment'',
      [CHR 0xE2, CHR 0x9C, CHR 0x93] @ '' Agent started successfully in room: room'',
      [CHR 0xE2, CHR 0x9C, CHR 0x93] @ '' MCP servers: 0 configured'']"
proof -
  have h1: "os_getenv (environ (world_of [] [])) ''MCP_SERVER_URL'' = None \<or>
            os_getenv (environ (world_of [] [])) ''MCP_SERVER_URL'' = Some []"
    by (simp add: world_of_def os_getenv_def)
  have h2: "os_getenv (environ (world_of [] [(''MCP_SERVER_URL'', [])])) ''MCP_SERVER_URL'' = None \<or>
            os_getenv (environ (world_of [] [(''MCP_SERVER_URL'', [])])) ''MCP_SERVER_URL'' = Some []"
    by (simp add: world_of_def os_getenv_def)
  show ?thesis
    using C4_mcp_url_unset [OF h1, of "\<lparr>SYSTEM_PROMPT = ''You are helpful.''\<rparr>" "ctx_of ''room''"]
      C4_mcp_url_unset [OF h2, of "\<lparr>SYSTEM_PROMPT = ''You are helpful.''\<rparr>" "ctx_of ''room''"]
    by (simp add: world_of_def ctx_of_def connect_ok_def start_ok_def)
qed

subsection \<open>The session configuration\<close>

text \<open>
  Claim C5: whatever the environment and the prompt, the session a handler invocation
  constructs has exactly the three provider selectors below. (The session is
  constructed after the connect call returns; an invocation whose connect call raises
  constructs no session.)
\<close>

theorem C5_session_selectors:
  "sessions_built (fst (entrypoint g w ctx)) =
     (if connect ctx AUDIO_ONLY = None
      then [\<lparr>stt = ''assemblyai/universal-streaming:en'',
             llm = ''openai/gpt-4.1-mini'',
             tts = ''cartesia/sonic-2:9626c31c-bec5-4cca-baa8-f8ba9e84c8bc''\<rparr>]
      else [])"
  by (simp add: sessions_built_entrypoint agent_session_def)


subsection \<open>At most one tool server\<close>

text \<open>
  Claim C6: at every point of a handler execution the list of tool servers has at most
  one element. Every value the variable \<^verbatim>\<open>mcp_servers\<close> takes has length 0 or 1; the
  list handed to the agent constructor is one of these values, so it has length 0 or 1;
  and at most one server is constructed.
\<close>

theorem C6_at_most_one_server:
  "list_all (\<lambda>l. length l \<le> 1)
     (mcp_servers_history (os_getenv (environ w) ''MCP_SERVER_URL'')) \<and>
   list_all (\<lambda>a. mcp_servers a \<in> set (mcp_servers_history (os_getenv (environ w) ''MCP_SERVER_URL''))
                \<and> length (mcp_servers a) \<le> 1)
     (agents_built (fst (entrypoint g w ctx))) \<and>
   length (servers_built (fst (entrypoint g w ctx))) \<le> 1"
  by (simp add: mcp_servers_history_lengths agents_built_entrypoint servers_built_entrypoint
      fst_prepare_mcp_servers_length mcp_servers_history_last [symmetric]
      del: last.simps)
     (simp add: mcp_servers_history_def Let_def split: option.splits)

subsection \<open>The order of the steps\<close>

text \<open>
  Claim C7: every handler execution does its steps in one fixed order. What the handler
  does is, in every execution, the list below: the environment check with the optional
  construction of a server, then the connect call; once that has returned, the agent
  construction, the session construction and the session start; and the two
  confirmation lines (room name, number of tool servers) after the session start, only
  when the session start has returned.
\<close>

theorem C7_order_of_steps:
  "fst (entrypoint g w ctx) =
     (let v = os_getenv (environ w) ''MCP_SERVER_URL'';
          a = \<lparr>instructions = SYSTEM_PROMPT g, mcp_servers = fst (prepare_mcp_servers v)\<rparr>
      in [Getenv ''MCP_SERVER_URL''] @
         (case v of
            None \<Rightarrow> [Print no_mcp_warning]
          | Some u \<Rightarrow>
              if u \<noteq> [] then [Print (check_mark @ '' MCP Server configured: '' @ u),
                                NewMCPServer \<lparr>url = u, timeout = 10\<rparr>]
              else [Print no_mcp_warning]) @
         [Connect AUDIO_ONLY] @
         (if connect ctx AUDIO_ONLY = None then
            [NewAgent a, NewSession agent_session, Start agent_session a (room ctx)] @
            (if session_start w agent_session a (room ctx) = None then
               [Print (check_mark @ '' Agent started successfully in room: '' @ name (room ctx)),
                Print (check_mark @ '' MCP servers: ''
                         @ str_nat (length (mcp_servers a)) @ '' configured'')]
             else [])
          else []))"
  by (simp add: entrypoint_def prepare_mcp_servers_def Let_def case_prod_beta
      split: option.splits)

subsection \<open>Failures\<close>

text \<open>
  Claim C8: every operation that fails propagates its error, without recovery or
  retry. The prompt file is read by the module body: when it is missing or unreadable,
  the process ends with the error of the read, after that one read. When the connect
  call raises, the handler ends with that error after that one connect call: no agent
  and no session is constructed, the session start is not invoked, and nothing is
  printed beyond the line of the environment check. When the session start raises, the
  handler ends with that error after that one start, and the confirmation lines are
  not printed.
\<close>

theorem C8_errors_propagate:
  "(map_of (files w0) (prompt_path w0) = None \<or>
    map_of (files w0) (prompt_path w0) = Some Unreadable \<longrightarrow>
      run_process w0 jobs =
        ([LoadDotenv, ReadText (prompt_path w0)],
         Inl (if map_of (files w0) (prompt_path w0) = None then FileNotFoundError
              else PermissionError))) \<and>
   (connect ctx1 AUDIO_ONLY = Some e1 \<longrightarrow>
      snd (entrypoint g w1 ctx1) = Inl e1 \<and>
      connects (fst (entrypoint g w1 ctx1)) = [AUDIO_ONLY] \<and>
      agents_built (fst (entrypoint g w1 ctx1)) = [] \<and>
      sessions_built (fst (entrypoint g w1 ctx1)) = [] \<and>
      starts (fst (entrypoint g w1 ctx1)) = [] \<and>
      printed (fst (entrypoint g w1 ctx1)) =
        printed (snd (prepare_mcp_servers (os_getenv (environ w1) ''MCP_SERVER_URL'')))) \<and>
   (connect ctx2 AUDIO_ONLY = None \<and>
    session_start w2 agent_session
      \<lparr>instructions = SYSTEM_PROMPT g,
       mcp_servers = fst (prepare_mcp_servers (os_getenv (environ w2) ''MCP_SERVER_URL''))\<rparr>
      (room ctx2) = Some e2 \<longrightarrow>
      snd (entrypoint g w2 ctx2) = Inl e2 \<and>
      connects (fst (entrypoint g w2 ctx2)) = [AUDIO_ONLY] \<and>
      starts (fst (entrypoint g w2 ctx2)) =
        [(agent_session,
          \<lparr>instructions = SYSTEM_PROMPT g,
           mcp_servers = fst (prepare_mcp_servers (os_getenv (environ w2) ''MCP_SERVER_URL''))\<rparr>,
          room ctx2)] \<and>
      printed (fst (entrypoint g w2 ctx2)) =
        printed (snd (prepare_mcp_servers (os_getenv (environ w2) ''MCP_SERVER_URL''))))"
proof (intro conjI impI)
  assume "map_of (files w0) (prompt_path w0) = None \<or>
          map_of (files w0) (prompt_path w0) = Some Unreadable"
  then show "run_process w0 jobs =
        ([LoadDotenv, ReadText (prompt_path w0)],
         Inl (if map_of (files w0) (prompt_path w0) = None then FileNotFoundError
              else PermissionError))"
    by (auto simp add: run_process_import_raises load_system_prompt_missing
        load_system_prompt_unreadable)
next
  assume h: "connect ctx1 AUDIO_ONLY = Some e1"
  show "snd (entrypoint g w1 ctx1) = Inl e1"
    by (simp add: entrypoint_connect_raises [OF h])
  show "connects (fst (entrypoint g w1 ctx1)) = [AUDIO_ONLY]"
    by (simp add: connects_entrypoint)
  show "agents_built (fst (entrypoint g w1 ctx1)) = []"
    by (simp add: agents_built_entrypoint h)
  show "sessions_built (fst (entrypoint g w1 ctx1)) = []"
    by (simp add: sessions_built_entrypoint h)
  show "starts (fst (entrypoint g w1 ctx1)) = []"
    by (simp add: starts_entrypoint h)
  show "printed (fst (entrypoint g w1 ctx1)) =
        printed (snd (prepare_mcp_servers (os_getenv (environ w1) ''MCP_SERVER_URL'')))"
    by (simp add: printed_entrypoint h)
next
  assume h: "connect ctx2 AUDIO_ONLY = None \<and>
    session_start w2 agent_session
      \<lparr>instructions = SYSTEM_PROMPT g,
       mcp_servers = fst (prepare_mcp_servers (os_getenv (environ w2) ''MCP_SERVER_URL''))\<rparr>
      (room ctx2) = Some e2"
  show "snd (entrypoint g w2 ctx2) = Inl e2"
    using h by (simp add: entrypoint_start_raises)
  show "connects (fst (entrypoint g w2 ctx2)) = [AUDIO_ONLY]"
    by (simp add: connects_entrypoint)
  show "starts (fst (entrypoint g w2 ctx2)) =
        [(agent_session,
          \<lparr>instructions = SYSTEM_PROMPT g,
           mcp_servers = fst (prepare_mcp_servers (os_getenv (environ w2) ''MCP_SERVER_URL''))\<rparr>,
          room ctx2)]"
    using h by (simp add: starts_entrypoint)
  show "printed (fst (entrypoint g w2 ctx2)) =
        printed (snd (prepare_mcp_servers (os_getenv (environ w2) ''MCP_SERVER_URL'')))"
    using h by (simp add: printed_entrypoint)
qed

text \<open>
  A process without the prompt file and one with an unreadable prompt file; a handler
  whose connect call is refused; a handler whose session start is refused.
\<close>

theorem C8_errors_propagate_witness:
  "run_process (world_of [] []) [(world_of [] [], ctx_of ''room'')] =
     ([LoadDotenv, ReadText ''/app/agent-prompt.md''], Inl FileNotFoundError) \<and>
   run_process (world_of [(''/app/agent-prompt.md'', Unreadable)] [])
       [(world_of [] [], ctx_of ''room'')] =
     ([LoadDotenv, ReadText ''/app/agent-prompt.md''], Inl PermissionError) \<and>
   snd (entrypoint \<lparr>SYSTEM_PROMPT = ''You are helpful.''\<rparr> (world_of [] [])
          ((ctx_of ''room'')\<lparr>connect := connect_refused\<rparr>)) = Inl (FrameworkError ''connect'') \<and>
   agents_built (fst (entrypoint \<lparr>SYSTEM_PROMPT = ''You are helpful.''\<rparr> (world_of [] [])
          ((ctx_of ''room'')\<lparr>connect := connect_refused\<rparr>))) = [] \<and>
   sessions_built (fst (entrypoint \<lparr>SYSTEM_PROMPT = ''You are helpful.''\<rparr> (world_of [] [])
          ((ctx_of ''room'')\<lparr>connect := connect_refused\<rparr>))) = [] \<and>
   starts (fst (entrypoint \<lparr>SYSTEM_PROMPT = ''You are helpful.''\<rparr> (world_of [] [])
          ((ctx_of ''room'')\<lparr>connect := connect_refused\<rparr>))) = [] \<and>
   printed (fst (entrypoint \<lparr>SYSTEM_PROMPT = ''You are helpful.''\<rparr> (world_of [] [])
          ((ctx_of ''room'')\<lparr>connect := connect_refused\<rparr>))) =
     [[CHR 0xE2, CHR 0x9A, CHR 0xA0] @ '' No MCP_SERVER_URL found in environment''] \<and>
   snd (entrypoint \<lparr>SYSTEM_PROMPT = ''You are helpful.''\<rparr>
          ((world_of [] [])\<lparr>session_start := start_refused\<rparr>) (ctx_of ''room'')) =
     Inl (FrameworkError ''start'') \<and>
   starts (fst (entrypoint \<lparr>SYSTEM_PROMPT = ''You are helpful.''\<rparr>
          ((world_of [] [])\<lparr>session_start := start_refused\<rparr>) (ctx_of ''room''))) =
     [(agent_session, \<lparr>instructions = ''You are helpful.'', mcp_servers = []\<rparr>,
       \<lparr>name = ''room''\<rparr>)] \<and>
   printed (fst (entrypoint \<lparr>SYSTEM_PROMPT = ''You are helpful.''\<rparr>
          ((world_of [] [])\<lparr>session_start := start_refused\<rparr>) (ctx_of ''room''))) =
     [[CHR 0xE2, CHR 0x9A, CHR 0xA0] @ '' No MCP_SERVER_URL found in environment'']"
proof -
  have m: "map_of (files (world_of [] [])) (prompt_path (world_of [] [])) = None"
    by (simp add: world_of_def)
  have u: "map_of (files (world_of [(''/app/agent-prompt.md'', Unreadable)] []))
      (prompt_path (world_of [(''/app/agent-prompt.md'', Unreadable)] [])) = Some Unreadable"
    by (simp add: world_of_def prompt_path_def)
  have c: "connect ((ctx_of ''room'')\<lparr>connect := connect_refused\<rparr>) AUDIO_ONLY =
      Some (FrameworkError ''connect'')"
    by (simp add: connect_refused_def)
  have s: "connect (ctx_of ''room'') AUDIO_ONLY = None \<and>
    session_start ((world_of [] [])\<lparr>session_start := start_refused\<rparr>) agent_session
      \<lparr>instructions = SYSTEM_PROMPT \<lparr>SYSTEM_PROMPT = ''You are helpful.''\<rparr>,
       mcp_servers = fst (prepare_mcp_servers
          (os_getenv (environ ((world_of [] [])\<lparr>session_start := start_refused\<rparr>))
             ''MCP_SERVER_URL''))\<rparr>
      (room (ctx_of ''room'')) = Some (FrameworkError ''start'')"
    by (simp add: ctx_of_def connect_ok_def start_refused_def)
  show ?thesis
    using m u c s
      C8_errors_propagate [of "world_of [] []" "[(world_of [] [], ctx_of ''room'')]"
        "(ctx_of ''room'')\<lparr>connect := connect_refused\<rparr>" "FrameworkError ''connect''"
        "\<lparr>SYSTEM_PROMPT = ''You are helpful.''\<rparr>" "world_of [] []"
        "ctx_of ''room''" "(world_of [] [])\<lparr>session_start := start_refused\<rparr>"
        "FrameworkError ''start''"]
      C8_errors_propagate [of "world_of [(''/app/agent-prompt.md'', Unreadable)] []"
        "[(world_of [] [], ctx_of ''room'')]"
        "(ctx_of ''room'')\<lparr>connect := connect_refused\<rparr>" "FrameworkError ''connect''"
        "\<lparr>SYSTEM_PROMPT = ''You are helpful.''\<rparr>" "world_of [] []"
        "ctx_of ''room''" "(world_of [] [])\<lparr>session_start := start_refused\<rparr>"
        "FrameworkError ''start''"]
    by (simp add: world_of_def prompt_path_def ctx_of_def os_getenv_def
        prepare_mcp_servers_unset no_mcp_warning_def warning_sign_def)
qed

subsection \<open>What the handler depends on\<close>

text \<open>
  Claim C9 as stated makes the agent descriptor, the session configuration and the
  log lines a function of the prompt file's content and of \<^verbatim>\<open>MCP_SERVER_URL\<close> alone.
  Here every run has the same prompt file and no \<^verbatim>\<open>MCP_SERVER_URL\<close>. The runs in rooms
  ``alpha'' and ``beta'' print different lines; the run whose session start raises
  prints only the warning; the run whose connect call raises constructs no agent and
  no session, where the run whose connect call returns constructs one of each.
\<close>

theorem C9_counterexample:
  "printed (process_trace (world_of [(''/app/agent-prompt.md'', Text ''You are helpful.'')] [])
      [(world_of [(''/app/agent-prompt.md'', Text ''You are helpful.'')] [], ctx_of ''alpha'')]) =
     [[CHR 0xE2, CHR 0x9A, CHR 0xA0] @ '' No MCP_SERVER_URL found in environment'',
      [CHR 0xE2, CHR 0x9C, CHR 0x93] @ '' Agent started successfully in room: alpha'',
      [CHR 0xE2, CHR 0x9C, CHR 0x93] @ '' MCP servers: 0 configured''] \<and>
   printed (process_trace (world_of [(''/app/agent-prompt.md'', Text ''You are helpful.'')] [])
      [(world_of [(''/app/agent-prompt.md'', Text ''You are helpful.'')] [], ctx_of ''beta'')]) =
     [[CHR 0xE2, CHR 0x9A, CHR 0xA0] @ '' No MCP_SERVER_URL found in environment'',
      [CHR 0xE2, CHR 0x9C, CHR 0x93] @ '' Agent started successfully in room: beta'',
      [CHR 0xE2, CHR 0x9C, CHR 0x93] @ '' MCP servers: 0 configured''] \<and>
   printed (process_trace (world_of [(''/app/agent-prompt.md'', Text ''You are helpful.'')] [])
      [((world_of [(''/app/agent-prompt.md'', Text ''You are helpful.'')] [])
          \<lparr>session_start := start_refused\<rparr>, ctx_of ''alpha'')]) =
     [[CHR 0xE2, CHR 0x9A, CHR 0xA0] @ '' No MCP_SERVER_URL found in environment''] \<and>
   agents_built (process_trace (world_of [(''/app/agent-prompt.md'', Text ''You are helpful.'')] [])
      [(world_of [(''/app/agent-prompt.md'', Text ''You are helpful.'')] [], ctx_of ''alpha'')]) =
     [\<lparr>instructions = ''You are helpful.'', mcp_servers = []\<rparr>] \<and>
   agents_built (process_trace (world_of [(''/app/agent-prompt.md'', Text ''You are helpful.'')] [])
      [(world_of [(''/app/agent-prompt.md'', Text ''You are helpful.'')] [],
        (ctx_of ''alpha'')\<lparr>connect := connect_refused\<rparr>)]) = [] \<and>
   sessions_built (process_trace (world_of [(''/app/agent-prompt.md'', Text ''You are helpful.'')] [])
      [(world_of [(''/app/agent-prompt.md'', Text ''You are helpful.'')] [], ctx_of ''alpha'')]) =
     [agent_session] \<and>
   sessions_built (process_trace (world_of [(''/app/agent-prompt.md'', Text ''You are helpful.'')] [])
      [(world_of [(''/app/agent-prompt.md'', Text ''You are helpful.'')] [],
        (ctx_of ''alpha'')\<lparr>connect := connect_refused\<rparr>)]) = []"
  by (simp add: process_trace_def run_process_def import_module_def load_system_prompt_def
      read_text_def prompt_path_def world_of_def ctx_of_def connect_ok_def connect_refused_def
      start_ok_def start_refused_def entrypoint_def os_getenv_def prepare_mcp_servers_def
      no_mcp_warning_def warning_sign_def check_mark_def Let_def)

text \<open>
  Claim C9, as the code has it: take two runs, each the import of the module followed
  by one handler invocation, with the same content of the prompt file at the import
  and the same value (or absence) of \<^verbatim>\<open>MCP_SERVER_URL\<close> at the invocation. When the
  connect call has the same outcome in both (it returns in both or raises in both),
  the agent descriptors and the session configurations constructed are identical. When
  moreover the room name is the same and the session start has the same outcome in
  both, the sequences of lines printed are identical.
\<close>

theorem C9_deterministic:
  assumes "map_of (files w0) (prompt_path w0) = Some (Text p)"
    and "map_of (files w0') (prompt_path w0') = Some (Text p)"
    and "os_getenv (environ w) ''MCP_SERVER_URL'' = os_getenv (environ w') ''MCP_SERVER_URL''"
    and "(connect ctx AUDIO_ONLY = None) = (connect ctx' AUDIO_ONLY = None)"
  shows "agents_built (process_trace w0 [(w, ctx)]) = agents_built (process_trace w0' [(w', ctx')]) \<and>
    sessions_built (process_trace w0 [(w, ctx)]) = sessions_built (process_trace w0' [(w', ctx')]) \<and>
    (name (room ctx) = name (room ctx') \<and>
     (session_start w agent_session
        \<lparr>instructions = p,
         mcp_servers = fst (prepare_mcp_servers (os_getenv (environ w) ''MCP_SERVER_URL''))\<rparr>
        (room ctx) = None) =
     (session_start w' agent_session
        \<lparr>instructions = p,
         mcp_servers = fst (prepare_mcp_servers (os_getenv (environ w') ''MCP_SERVER_URL''))\<rparr>
        (room ctx') = None) \<longrightarrow>
     printed (process_trace w0 [(w, ctx)]) = printed (process_trace w0' [(w', ctx')]))"
proof -
  have t: "process_trace w0 [(w, ctx)] =
      [LoadDotenv, ReadText (prompt_path w0)] @ fst (entrypoint \<lparr>SYSTEM_PROMPT = p\<rparr> w ctx)"
    using assms(1) by (rule process_trace_one_job)
  have t': "process_trace w0' [(w', ctx')] =
      [LoadDotenv, ReadText (prompt_path w0')] @ fst (entrypoint \<lparr>SYSTEM_PROMPT = p\<rparr> w' ctx')"
    using assms(2) by (rule process_trace_one_job)
  have a: "agents_built (process_trace w0 [(w, ctx)]) =
      agents_built (process_trace w0' [(w', ctx')])"
    using assms(3,4) by (simp add: t t' agents_built_entrypoint)
  have s: "sessions_built (process_trace w0 [(w, ctx)]) =
      sessions_built (process_trace w0' [(w', ctx')])"
    using assms(4) by (simp add: t t' sessions_built_entrypoint)
  have l: "name (room ctx) = name (room ctx') \<and>
     (session_start w agent_session
        \<lparr>instructions = p,
         mcp_servers = fst (prepare_mcp_servers (os_getenv (environ w) ''MCP_SERVER_URL''))\<rparr>
        (room ctx) = None) =
     (session_start w' agent_session
        \<lparr>instructions = p,
         mcp_servers = fst (prepare_mcp_servers (os_getenv (environ w') ''MCP_SERVER_URL''))\<rparr>
        (room ctx') = None) \<longrightarrow>
     printed (process_trace w0 [(w, ctx)]) = printed (process_trace w0' [(w', ctx')])"
    using assms(3,4) by (simp add: t t' printed_entrypoint Let_def)
  show ?thesis using a s l by simp
qed

text \<open>
  Two runs that differ in the other files and the other environment variables.
\<close>

theorem C9_deterministic_witness:
  "agents_built (process_trace
      (world_of [(''/app/agent-prompt.md'', Text ''You are helpful.'')] [])
      [(world_of [] [(''MCP_SERVER_URL'', ''https://example.com/mcp'')], ctx_of ''room'')]) =
   agents_built (process_trace
      (world_of [(''/app/agent-prompt.md'', Text ''You are helpful.''), (''/app/notes'', Text ''x'')] [])
      [(world_of [] [(''HOME'', ''/root''), (''MCP_SERVER_URL'', ''https://example.com/mcp'')],
        ctx_of ''room'')]) \<and>
   sessions_built (process_trace
      (world_of [(''/app/agent-prompt.md'', Text ''You are helpful.'')] [])
      [(world_of [] [(''MCP_SERVER_URL'', ''https://example.com/mcp'')], ctx_of ''room'')]) =
   sessions_built (process_trace
      (world_of [(''/app/agent-prompt.md'', Text ''You are helpful.''), (''/app/notes'', Text ''x'')] [])
      [(world_of [] [(''HOME'', ''/root''), (''MCP_SERVER_URL'', ''https://example.com/mcp'')],
        ctx_of ''room'')]) \<and>
   printed (process_trace
      (world_of [(''/app/agent-prompt.md'', Text ''You are helpful.'')] [])
      [(world_of [] [(''MCP_SERVER_URL'', ''https://example.com/mcp'')], ctx_of ''room'')]) =
   printed (process_trace
      (world_of [(''/app/agent-prompt.md'', Text ''You are helpful.''), (''/app/notes'', Text ''x'')] [])
      [(world_of [] [(''HOME'', ''/root''), (''MCP_SERVER_URL'', ''https://example.com/mcp'')],
        ctx_of ''room'')])"
proof -
  have h1: "map_of (files (world_of [(''/app/agent-prompt.md'', Text ''You are helpful.'')] []))
      (prompt_path (world_of [(''/app/agent-prompt.md'', Text ''You are helpful.'')] [])) =
      Some (Text ''You are helpful.'')"
    by (simp add: world_of_def prompt_path_def)
  have h2: "map_of (files (world_of [(''/app/agent-prompt.md'', Text ''You are helpful.''),
        (''/app/notes'', Text ''x'')] []))
      (prompt_path (world_of [(''/app/agent-prompt.md'', Text ''You are helpful.''),
        (''/app/notes'', Text ''x'')] [])) =
      Some (Text ''You are helpful.'')"
    by (simp add: world_of_def prompt_path_def)
  have h3: "os_getenv (environ (world_of [] [(''MCP_SERVER_URL'', ''https://example.com/mcp'')]))
        ''MCP_SERVER_URL'' =
      os_getenv (environ (world_of []
        [(''HOME'', ''/root''), (''MCP_SERVER_URL'', ''https://example.com/mcp'')]))
        ''MCP_SERVER_URL''"
    by (simp add: world_of_def os_getenv_def)
  have h4: "(connect (ctx_of ''room'') AUDIO_ONLY = None) =
      (connect (ctx_of ''room'') AUDIO_ONLY = None)"
    by simp
  show ?thesis
    using C9_deterministic [OF h1 h2 h3 h4]
    by (simp add: world_of_def start_ok_def)
qed

subsection \<open>The empty string and the unset variable\<close>

text \<open>
  Claim C10: a handler invocation with \<^verbatim>\<open>MCP_SERVER_URL\<close> set to the empty string does
  exactly what the same invocation does with the variable unset: same events, same
  result. In both the warning line is printed first (and the confirmation line of the
  other branch is not printed), no server is constructed, and the list passed to the
  agent constructor is empty.
\<close>

theorem C10_empty_is_unset:
  "os_getenv env1 ''MCP_SERVER_URL'' = Some [] \<Longrightarrow>
   os_getenv env2 ''MCP_SERVER_URL'' = None \<Longrightarrow>
   entrypoint g (w\<lparr>environ := env1\<rparr>) ctx = entrypoint g (w\<lparr>environ := env2\<rparr>) ctx \<and>
   printed (fst (entrypoint g (w\<lparr>environ := env1\<rparr>) ctx)) =
     ([CHR 0xE2, CHR 0x9A, CHR 0xA0] @ '' No MCP_SERVER_URL found in environment'') #
     (if connect ctx AUDIO_ONLY = None \<and>
         session_start w agent_session
           \<lparr>instructions = SYSTEM_PROMPT g, mcp_servers = []\<rparr> (room ctx) = None
      then [[CHR 0xE2, CHR 0x9C, CHR 0x93] @ '' Agent started successfully in room: ''
              @ name (room ctx),
            [CHR 0xE2, CHR 0x9C, CHR 0x93] @ '' MCP servers: 0 configured'']
      else []) \<and>
   servers_built (fst (entrypoint g (w\<lparr>environ := env1\<rparr>) ctx)) = [] \<and>
   map mcp_servers (agents_built (fst (entrypoint g (w\<lparr>environ := env1\<rparr>) ctx))) =
     (if connect ctx AUDIO_ONLY = None then [[]] else [])"
proof -
  assume h1: "os_getenv env1 ''MCP_SERVER_URL'' = Some []"
    and h2: "os_getenv env2 ''MCP_SERVER_URL'' = None"
  have e: "entrypoint g (w\<lparr>environ := env1\<rparr>) ctx = entrypoint g (w\<lparr>environ := env2\<rparr>) ctx"
    by (simp add: entrypoint_def h1 h2 prepare_mcp_servers_unset Let_def split: option.splits)
  have r: "printed (fst (entrypoint g (w\<lparr>environ := env1\<rparr>) ctx)) =
     ([CHR 0xE2, CHR 0x9A, CHR 0xA0] @ '' No MCP_SERVER_URL found in environment'') #
     (if connect ctx AUDIO_ONLY = None \<and>
         session_start w agent_session
           \<lparr>instructions = SYSTEM_PROMPT g, mcp_servers = []\<rparr> (room ctx) = None
      then [[CHR 0xE2, CHR 0x9C, CHR 0x93] @ '' Agent started successfully in room: ''
              @ name (room ctx),
            [CHR 0xE2, CHR 0x9C, CHR 0x93] @ '' MCP servers: 0 configured'']
      else [])"
    by (simp add: h1 printed_entrypoint printed_prepare_mcp_servers prepare_mcp_servers_unset
        check_mark_def no_mcp_warning_def warning_sign_def Let_def)
  have b: "servers_built (fst (entrypoint g (w\<lparr>environ := env1\<rparr>) ctx)) = []"
    by (simp add: h1 servers_built_entrypoint prepare_mcp_servers_unset)
  have a: "map mcp_servers (agents_built (fst (entrypoint g (w\<lparr>environ := env1\<rparr>) ctx))) =
     (if connect ctx AUDIO_ONLY = None then [[]] else [])"
    by (simp add: h1 agents_built_entrypoint prepare_mcp_servers_unset)
  show ?thesis
    using e r b a by simp
qed

text \<open>The handler with the variable set to the empty string, and with it unset.\<close>

theorem C10_empty_is_unset_witness:
  "entrypoint \<lparr>SYSTEM_PROMPT = ''You are helpful.''\<rparr>
     (world_of [] [(''MCP_SERVER_URL'', [])]) (ctx_of ''room'') =
   entrypoint \<lparr>SYSTEM_PROMPT = ''You are helpful.''\<rparr> (world_of [] []) (ctx_of ''room'') \<and>
   printed (fst (entrypoint \<lparr>SYSTEM_PROMPT = ''You are helpful.''\<rparr>
     (world_of [] [(''MCP_SERVER_URL'', [])]) (ctx_of ''room''))) =
     [[CHR 0xE2, CHR 0x9A, CHR 0xA0] @ '' No MCP_SERVER_URL found in environment'',
      [CHR 0xE2, CHR 0x9C, CHR 0x93] @ '' Agent started successfully in room: room'',
      [CHR 0xE2, CHR 0x9C, CHR 0x93] @ '' MCP servers: 0 configured''] \<and>
   servers_built (fst (entrypoint \<lparr>SYSTEM_PROMPT = ''You are helpful.''\<rparr>
     (world_of [] [(''MCP_SERVER_URL'', [])]) (ctx_of ''room''))) = [] \<and>
   map mcp_servers (agents_built (fst (entrypoint \<lparr>SYSTEM_PROMPT = ''You are helpful.''\<rparr>
     (world_of [] [(''MCP_SERVER_URL'', [])]) (ctx_of ''room'')))) = [[]]"
proof -
  have h1: "os_getenv [(''MCP_SERVER_URL'', [])] ''MCP_SERVER_URL'' = Some []"
    by (simp add: os_getenv_def)
  have h2: "os_getenv [] ''MCP_SERVER_URL'' = None"
    by (simp add: os_getenv_def)
  have w1: "(world_of [] [])\<lparr>environ := [(''MCP_SERVER_URL'', [])]\<rparr> =
      world_of [] [(''MCP_SERVER_URL'', [])]"
    by (simp add: world_of_def)
  have w2: "(world_of [] [])\<lparr>environ := []\<rparr> = world_of [] []"
    by (simp add: world_of_def)
  have s: "session_start (world_of [] []) = start_ok"
    by (simp add: world_of_def)
  show ?thesis
    using C10_empty_is_unset [OF h1 h2, of "\<lparr>SYSTEM_PROMPT = ''You are helpful.''\<rparr>"
        "world_of [] []" "ctx_of ''room''"]
    by (elim conjE) (simp add: w1 w2 s ctx_of_def connect_ok_def start_ok_def)
qed

end
